theory Spec2Isabelle
  imports Main "HOL-Library.Monad_Syntax"
begin

section \<open>Python strings\<close>

text \<open>
  Python \<open>str\<close> values are modelled as \<open>string\<close> (lists of 8-bit characters) where the
  text a function receives is taken to be Latin-1, and as lists of code points
  (\<open>nat list\<close>) in the phone validator, whose regular-expression class \<open>\d\<close> ranges over
  every Unicode decimal digit. The helpers below work on both. Slices follow Python: a
  negative bound counts from the end and every bound is clamped to the string.
\<close>

definition py_take :: "int \<Rightarrow> 'a list \<Rightarrow> 'a list" where
  \<comment> \<open>\<open>s[:n]\<close>\<close>
  "py_take n xs = (if n < 0 then take (length xs - nat (- n)) xs else take (nat n) xs)"

definition py_drop :: "int \<Rightarrow> 'a list \<Rightarrow> 'a list" where
  \<comment> \<open>\<open>s[n:]\<close>\<close>
  "py_drop n xs = (if n < 0 then drop (length xs - nat (- n)) xs else drop (nat n) xs)"

definition py_rfind :: "'a \<Rightarrow> 'a list \<Rightarrow> int \<Rightarrow> int" where
  \<comment> \<open>\<open>s.rfind(c, 0, end)\<close>: the highest index below \<open>end\<close> holding \<open>c\<close>, or \<open>-1\<close>\<close>
  "py_rfind c s end =
     (let e = (if end < 0 then nat (int (length s) + end) else min (nat end) (length s));
          hits = filter (\<lambda>i. s ! i = c) [0..<e]
      in if hits = [] then - 1 else int (last hits))"

definition startswith :: "'a list \<Rightarrow> 'a list \<Rightarrow> bool" where
  "startswith s p = (take (length p) s = p)"

section \<open>Validation utilities (core/utils/validation.py)\<close>

text \<open>
  \<open>int(digit)\<close> raises \<open>ValueError\<close> on a character that is not a digit; the checksum walk
  carries that as \<open>None\<close>. The tables are the source's, row by row; \<open>inverse_table\<close> is
  declared there and never read.
\<close>

datatype py_error = ValueError

definition is_digit :: "char \<Rightarrow> bool" where
  "is_digit c = (c \<in> set ''0123456789'')"

definition int_of_digit :: "char \<Rightarrow> nat option" where
  "int_of_digit c = (if is_digit c then Some (of_char c - 48) else None)"

definition multiplication_table :: "nat list list" where
  "multiplication_table =
    [[0, 1, 2, 3, 4, 5, 6, 7, 8, 9],
     [1, 2, 3, 4, 0, 6, 7, 8, 9, 5],
     [2, 3, 4, 0, 1, 7, 8, 9, 5, 6],
     [3, 4, 0, 1, 2, 8, 9, 5, 6, 7],
     [4, 0, 1, 2, 3, 9, 5, 6, 7, 8],
     [5, 9, 8, 7, 6, 0, 4, 3, 2, 1],
     [6, 5, 9, 8, 7, 1, 0, 4, 3, 2],
     [7, 6, 5, 9, 8, 2, 1, 0, 4, 3],
     [8, 7, 6, 5, 9, 3, 2, 1, 0, 4],
     [9, 8, 7, 6, 5, 4, 3, 2, 1, 0]]"

definition permutation_table :: "nat list list" where
  "permutation_table =
    [[0, 1, 2, 3, 4, 5, 6, 7, 8, 9],
     [1, 5, 7, 6, 2, 8, 3, 0, 9, 4],
     [5, 8, 0, 3, 7, 9, 6, 1, 4, 2],
     [8, 9, 1, 6, 0, 4, 3, 5, 2, 7],
     [9, 4, 5, 3, 1, 2, 6, 8, 7, 0],
     [4, 2, 8, 6, 5, 7, 3, 9, 0, 1],
     [2, 7, 9, 3, 8, 0, 6, 4, 1, 5],
     [7, 0, 4, 6, 9, 1, 3, 2, 5, 8]]"

definition inverse_table :: "nat list" where
  "inverse_table = [0, 4, 3, 2, 1, 5, 6, 7, 8, 9]"

fun verhoeff_walk :: "nat \<Rightarrow> nat \<Rightarrow> string \<Rightarrow> nat option" where
  "verhoeff_walk i checksum [] = Some checksum"
| "verhoeff_walk i checksum (digit # rest) =
     (case int_of_digit digit of
        None \<Rightarrow> None
      | Some d \<Rightarrow> verhoeff_walk (Suc i)
                   (multiplication_table ! checksum ! (permutation_table ! (i mod 8) ! d)) rest)"

definition verify_aadhaar_checksum :: "string \<Rightarrow> py_error + bool" where
  "verify_aadhaar_checksum aadhaar =
     (case verhoeff_walk 0 0 (rev aadhaar) of
        None \<Rightarrow> Inl ValueError
      | Some checksum \<Rightarrow> Inr (checksum = 0))"

definition validate_aadhaar_number :: "string \<Rightarrow> py_error + bool \<times> string option" where
  "validate_aadhaar_number aadhaar =
     (if aadhaar = [] then Inr (False, None)
      else
        let cleaned = filter is_digit aadhaar in
        if length cleaned \<noteq> 12 then Inr (False, None)
        else if card (set cleaned) = 1 then Inr (False, None)
        else case verify_aadhaar_checksum cleaned of
               Inl e \<Rightarrow> Inl e
             | Inr ok \<Rightarrow> if \<not> ok then Inr (False, None) else Inr (True, Some cleaned))"

subsection \<open>Phone numbers\<close>


definition nd_ranges :: "(nat \<times> nat) list" where
  "nd_ranges =
    [(48, 57), (1632, 1641), (1776, 1785), (1984, 1993), (2406, 2415), (2534, 2543),
     (2662, 2671), (2790, 2799), (2918, 2927), (3046, 3055), (3174, 3183), (3302, 3311),
     (3430, 3439), (3558, 3567), (3664, 3673), (3792, 3801), (3872, 3881), (4160, 4169),
     (4240, 4249), (6112, 6121), (6160, 6169), (6470, 6479), (6608, 6617), (6784, 6793),
     (6800, 6809), (6992, 7001), (7088, 7097), (7232, 7241), (7248, 7257), (42528, 42537),
     (43216, 43225), (43264, 43273), (43472, 43481), (43504, 43513), (43600, 43609),
     (44016, 44025), (65296, 65305), (66720, 66729), (68912, 68921), (69734, 69743),
     (69872, 69881), (69942, 69951), (70096, 70105), (70384, 70393), (70736, 70745),
     (70864, 70873), (71248, 71257), (71360, 71369), (71472, 71481), (71904, 71913),
     (72016, 72025), (72784, 72793), (73040, 73049), (73120, 73129), (92768, 92777),
     (92864, 92873), (93008, 93017), (120782, 120831), (123200, 123209), (123632, 123641),
     (125264, 125273), (130032, 130041)]"

definition unicode_decimal :: "nat \<Rightarrow> bool" where
  \<comment> \<open>the class \<open>\d\<close> of a \<open>str\<close> pattern\<close>
  "unicode_decimal c = list_ex (\<lambda>r. fst r \<le> c \<and> c \<le> snd r) nd_ranges"











section \<open>Formatting utilities (core/utils/formatting.py)\<close>

definition truncate_text :: "string \<Rightarrow> int \<Rightarrow> string \<Rightarrow> string" where
  "truncate_text text max_length suffix =
     (if text = [] \<or> int (length text) \<le> max_length then text
      else if max_length > int (length suffix) then
        (let truncate_at = max_length - int (length suffix);
             last_space = py_rfind CHR '' '' text truncate_at
         in if last_space > max_length div 2
            then py_take last_space text @ suffix
            else py_take truncate_at text @ suffix)
      else py_take max_length text)"

section \<open>Settings (core/config.py) and HTTP results\<close>

text \<open>
  The settings object is read from the process environment, a map from variable names to
  values; each field has a default. Only the fields the modelled routers read are kept.
\<close>

record settings =
  farmer_profiles_table :: string
  whatsapp_verify_token :: "string option"

definition get_settings :: "(string \<rightharpoonup> string) \<Rightarrow> settings" where
  "get_settings env =
     \<lparr> farmer_profiles_table =
         (case env ''FARMER_PROFILES_TABLE'' of None \<Rightarrow> ''test-farmer-profiles'' | Some v \<Rightarrow> v),
       whatsapp_verify_token = env ''WHATSAPP_VERIFY_TOKEN'' \<rparr>"

text \<open>
  What a route answers: the handler raises \<open>HTTPException(status_code, detail)\<close>; the body
  fails the request model's validation (422); the handler raises something nobody catches,
  which the application's global exception handler (main.py) turns into a 500; or the
  handler returns a value, sent with the route's success status.
\<close>

datatype 'a http_result =
    HTTPException nat string
  | RequestValidationError
  | UnhandledException
  | Returned nat 'a

fun status_code :: "'a http_result \<Rightarrow> nat" where
  "status_code (HTTPException c d) = c"
| "status_code RequestValidationError = 422"
| "status_code UnhandledException = 500"
| "status_code (Returned c v) = c"

section \<open>WhatsApp router (api/v1/whatsapp.py)\<close>

definition verify_webhook :: "settings \<Rightarrow> string \<Rightarrow> string \<Rightarrow> string \<Rightarrow> string http_result" where
  "verify_webhook st hub_mode hub_challenge hub_verify_token =
     (if hub_mode = ''subscribe'' \<and> Some hub_verify_token = whatsapp_verify_token st
      then Returned 200 hub_challenge
      else HTTPException 403 ''Invalid verification token'')"


subsection \<open>The mounted verification route\<close>






section \<open>Data masking (core/security/encryption.py, core/utils/encryption.py)\<close>

definition py_slice :: "nat \<Rightarrow> nat \<Rightarrow> 'a list \<Rightarrow> 'a list" where
  \<comment> \<open>\<open>s[a:b]\<close> for non-negative literal bounds\<close>
  "py_slice a b xs = drop a (take b xs)"

definition mask_phone_number :: "string \<Rightarrow> string" where
  \<comment> \<open>\<open>DataMasking.mask_phone_number\<close>\<close>
  "mask_phone_number phone =
     (if phone = [] \<or> length phone < 4 then ''****''
      else ''****'' @ py_drop (- 4) phone)"

definition mask_sensitive_data :: "string \<Rightarrow> string \<Rightarrow> string" where
  "mask_sensitive_data data data_type =
     (if data = [] then ''''
      else if data_type = ''phone'' then
        (if length data \<ge> 10 then py_take (- 4) data @ ''****'' else ''****'')
      else if data_type = ''email'' then
        (if CHR ''@'' \<in> set data then
           (let local = takeWhile (\<lambda>c. c \<noteq> CHR ''@'') data;
                domain = tl (dropWhile (\<lambda>c. c \<noteq> CHR ''@'') data);
                masked_local = (if length local > 1
                                then hd local # replicate (length local - 1) CHR ''*''
                                else ''*'')
            in masked_local @ ''@'' @ domain)
         else ''****'')
      else if data_type = ''aadhaar'' then
        (if length data \<ge> 12 then ''XXXX-XXXX-'' @ py_drop (- 4) data else ''XXXX-XXXX-XXXX'')
      else if data_type = ''pan'' then
        (if length data \<ge> 10 then py_take 3 data @ ''**'' @ py_slice 5 9 data @ ''*''
         else ''**********'')
      else if data_type = ''account'' then
        (if length data \<ge> 4 then replicate (length data - 4) CHR ''X'' @ py_drop (- 4) data
         else ''XXXX'')
      else
        (if length data \<le> 2 then replicate (length data) CHR ''*''
         else if length data \<le> 4 then hd data # replicate (length data - 2) CHR ''*'' @ [last data]
         else hd data # replicate (length data - 2) CHR ''*'' @ [last data]))"

section \<open>Library operations\<close>

text \<open>
  Python's \<open>float\<close> and \<open>datetime\<close> are left abstract: \<open>'f\<close> is the type of floats and
  \<open>'t\<close> the type of datetimes, and the operations the code applies to them are the fields
  of a record passed to every function that uses them. \<open>float_parse\<close> and
  \<open>fromisoformat\<close> give \<open>None\<close> where Python raises \<open>ValueError\<close>.
\<close>

record ('f, 't) pylib =
  float_str :: "'f \<Rightarrow> string"
  float_parse :: "string \<Rightarrow> 'f option"
  float_of_int :: "int \<Rightarrow> 'f"
  float_add :: "'f \<Rightarrow> 'f \<Rightarrow> 'f"
  float_lt :: "'f \<Rightarrow> 'f \<Rightarrow> bool"
  float_le :: "'f \<Rightarrow> 'f \<Rightarrow> bool"
  isoformat :: "'t \<Rightarrow> string"
  fromisoformat :: "string \<Rightarrow> 't option"

definition lib_roundtrips :: "('f, 't) pylib \<Rightarrow> bool" where
  \<comment> \<open>\<open>float(str(x)) == x\<close> and \<open>datetime.fromisoformat(t.isoformat()) == t\<close>\<close>
  "lib_roundtrips lib =
     ((\<forall>x. float_parse lib (float_str lib x) = Some x)
      \<and> (\<forall>t. fromisoformat lib (isoformat lib t) = Some t))"

section \<open>Farmers router (api/v1/farmers.py)\<close>

subsection \<open>Request and response models\<close>

record 'f location =
  state :: string
  district :: string
  village :: string
  latitude :: "'f option"
  longitude :: "'f option"

record ('f, 't) crop_info =
  crop_type :: string
  area :: 'f
  planting_date :: "'t option"
  expected_harvest :: "'t option"

record ('f, 't) farm_details =
  total_land_area :: 'f
  soil_type :: string
  irrigation_type :: string
  crops :: "('f, 't) crop_info list"

record preferences =
  organic_farming :: bool
  risk_tolerance :: string
  preferred_language :: string

record ('f, 't) farmer_profile =
  name :: string
  phone_number :: string
  location :: "'f location"
  farm_details :: "('f, 't) farm_details"
  preferences :: preferences

text \<open>\<open>FarmerProfileResponse\<close> has the fields of \<open>FarmerProfile\<close> and three more.\<close>

record ('f, 't) farmer_profile_response = "('f, 't) farmer_profile" +
  farmer_id :: string
  created_at :: 't
  updated_at :: 't

subsection \<open>Field constraints\<close>

definition phone_pattern :: "string \<Rightarrow> bool" where
  \<comment> \<open>\<open>^[+]?[1-9]\d{1,14}$\<close>\<close>
  "phone_pattern s =
     (let t = (if s \<noteq> [] \<and> hd s = CHR ''+'' then tl s else s)
      in 2 \<le> length t \<and> length t \<le> 15 \<and> hd t \<in> set ''123456789'' \<and> list_all is_digit (tl t))"

definition crop_info_valid :: "('f, 't) pylib \<Rightarrow> ('f, 't) crop_info \<Rightarrow> bool" where
  \<comment> \<open>\<open>area: float = Field(gt=0)\<close>\<close>
  "crop_info_valid lib c = float_lt lib (float_of_int lib 0) (area c)"

definition farm_details_valid :: "('f, 't) pylib \<Rightarrow> ('f, 't) farm_details \<Rightarrow> bool" where
  \<comment> \<open>\<open>total_land_area: float = Field(gt=0)\<close>, and every crop valid\<close>
  "farm_details_valid lib fd =
     (float_lt lib (float_of_int lib 0) (total_land_area fd)
      \<and> list_all (crop_info_valid lib) (crops fd))"

definition preferences_valid :: "preferences \<Rightarrow> bool" where
  \<comment> \<open>\<open>^(low|medium|high)$\<close> and \<open>^(hi|ta|te|bn|mr|gu|pa)$\<close>\<close>
  "preferences_valid p =
     (risk_tolerance p \<in> set [''low'', ''medium'', ''high'']
      \<and> preferred_language p \<in> set [''hi'', ''ta'', ''te'', ''bn'', ''mr'', ''gu'', ''pa''])"

definition farmer_profile_valid :: "('f, 't) pylib \<Rightarrow> ('f, 't) farmer_profile \<Rightarrow> bool" where
  "farmer_profile_valid lib p =
     (phone_pattern (phone_number p)
      \<and> farm_details_valid lib (farm_details p)
      \<and> preferences_valid (preferences p))"

subsection \<open>The DynamoDB client\<close>

text \<open>
  Attribute values in DynamoDB's typed envelope. A Python dict is an association list, read
  with \<open>map_of\<close>; the client is modelled by the tables' contents, keyed by table name and
  \<open>farmerId\<close>. Failures of the service other than the conditional check are not modelled.
\<close>

datatype attr = S string | N string | BOOL bool | M "(string \<times> attr) list" | L "attr list"

type_synonym item = "(string \<times> attr) list"
type_synonym dynamodb = "string \<times> string \<Rightarrow> item option"

datatype client_error = ConditionalCheckFailedException | ValidationException

fun dict_set :: "string \<Rightarrow> 'v \<Rightarrow> (string \<times> 'v) list \<Rightarrow> (string \<times> 'v) list" where
  \<comment> \<open>\<open>d[k] = v\<close>\<close>
  "dict_set k v [] = [(k, v)]"
| "dict_set k v ((k', v') # d) = (if k = k' then (k, v) # d else (k', v') # dict_set k v d)"

definition put_item_not_exists :: "dynamodb \<Rightarrow> string \<Rightarrow> item \<Rightarrow> client_error + dynamodb" where
  \<comment> \<open>\<open>put_item(TableName, Item, ConditionExpression="attribute_not_exists(farmerId)")\<close>\<close>
  "put_item_not_exists db table_name it =
     (case map_of it ''farmerId'' of
        Some (S k) \<Rightarrow>
          (if db (table_name, k) \<noteq> None then Inl ConditionalCheckFailedException
           else Inr (db((table_name, k) \<mapsto> it)))
      | _ \<Rightarrow> Inl ValidationException)"

definition get_item :: "dynamodb \<Rightarrow> string \<Rightarrow> string \<Rightarrow> item option" where
  \<comment> \<open>\<open>get_item(TableName, Key={"farmerId": {"S": k}})\<close>; \<open>None\<close> when the response has no \<open>Item\<close>\<close>
  "get_item db table_name k = db (table_name, k)"

text \<open>Subscripting an attribute value by its type tag; \<open>None\<close> is Python's \<open>KeyError\<close>.\<close>

fun the_S :: "attr \<Rightarrow> string option" where
  "the_S (S s) = Some s" | "the_S _ = None"

fun the_N :: "attr \<Rightarrow> string option" where
  "the_N (N s) = Some s" | "the_N _ = None"

fun the_BOOL :: "attr \<Rightarrow> bool option" where
  "the_BOOL (BOOL b) = Some b" | "the_BOOL _ = None"

fun the_M :: "attr \<Rightarrow> (string \<times> attr) list option" where
  "the_M (M d) = Some d" | "the_M _ = None"

fun the_L :: "attr \<Rightarrow> attr list option" where
  "the_L (L xs) = Some xs" | "the_L _ = None"

subsection \<open>Creating a profile\<close>

text \<open>
  The argument \<open>fid\<close> is the handler's \<open>farmer_id\<close> (renamed, the response field has that
  name): the value of \<open>str(uuid.uuid4())\<close>; \<open>current_time\<close> is that of
  \<open>datetime.utcnow()\<close>; the handler returns its answer and the client's new state.
\<close>

definition farmer_item ::
  "('f, 't) pylib \<Rightarrow> string \<Rightarrow> 't \<Rightarrow> ('f, 't) farmer_profile \<Rightarrow> item" where
  "farmer_item lib fid current_time farmer_profile =
     (let item =
        [(''farmerId'', S fid),
         (''name'', S (name farmer_profile)),
         (''phoneNumber'', S (phone_number farmer_profile)),
         (''location'', M
            [(''state'', S (state (location farmer_profile))),
             (''district'', S (district (location farmer_profile))),
             (''village'', S (village (location farmer_profile)))]),
         (''farmDetails'', M
            [(''totalLandArea'', N (float_str lib (total_land_area (farm_details farmer_profile)))),
             (''soilType'', S (soil_type (farm_details farmer_profile))),
             (''irrigationType'', S (irrigation_type (farm_details farmer_profile))),
             (''crops'', L
                (map (\<lambda>crop. M [(''cropType'', S (crop_type crop)),
                                 (''area'', N (float_str lib (area crop)))])
                     (crops (farm_details farmer_profile))))]),
         (''preferences'', M
            [(''organicFarming'', BOOL (organic_farming (preferences farmer_profile))),
             (''riskTolerance'', S (risk_tolerance (preferences farmer_profile))),
             (''preferredLanguage'', S (preferred_language (preferences farmer_profile)))]),
         (''createdAt'', S (isoformat lib current_time)),
         (''updatedAt'', S (isoformat lib current_time))];
        set_location = (\<lambda>k v it.
          case map_of it ''location'' of
            Some (M loc) \<Rightarrow> dict_set ''location'' (M (dict_set k v loc)) it
          | _ \<Rightarrow> it);
        item = (case latitude (location farmer_profile) of
                  None \<Rightarrow> item
                | Some x \<Rightarrow> set_location ''latitude'' (N (float_str lib x)) item);
        item = (case longitude (location farmer_profile) of
                  None \<Rightarrow> item
                | Some x \<Rightarrow> set_location ''longitude'' (N (float_str lib x)) item)
      in item)"

definition create_farmer_profile ::
  "('f, 't) pylib \<Rightarrow> settings \<Rightarrow> dynamodb \<Rightarrow> string \<Rightarrow> 't \<Rightarrow> ('f, 't) farmer_profile
     \<Rightarrow> ('f, 't) farmer_profile_response http_result \<times> dynamodb" where
  "create_farmer_profile lib st db fid current_time farmer_profile =
     (case put_item_not_exists db (farmer_profiles_table st)
             (farmer_item lib fid current_time farmer_profile) of
        Inr db' \<Rightarrow>
          (Returned 201
             (farmer_profile.extend farmer_profile
                (farmer_profile_response.fields fid current_time current_time)),
           db')
      | Inl ConditionalCheckFailedException \<Rightarrow>
          (HTTPException 409 ''Farmer profile already exists'', db)
      | Inl _ \<Rightarrow> (HTTPException 500 ''Failed to create farmer profile'', db))"

definition post_farmers ::
  "('f, 't) pylib \<Rightarrow> settings \<Rightarrow> dynamodb \<Rightarrow> string \<Rightarrow> 't \<Rightarrow> ('f, 't) farmer_profile
     \<Rightarrow> ('f, 't) farmer_profile_response http_result \<times> dynamodb" where
  \<comment> \<open>the route \<open>POST /farmers\<close>: the body is validated, then the handler runs\<close>
  "post_farmers lib st db fid current_time body =
     (if farmer_profile_valid lib body
      then create_farmer_profile lib st db fid current_time body
      else (RequestValidationError, db))"

subsection \<open>Reading a profile\<close>

text \<open>
  In the parsing functions \<open>None\<close> stands for an exception the handler does not catch:
  \<open>KeyError\<close> from a missing key or type tag, \<open>ValueError\<close> from \<open>float\<close> or
  \<open>fromisoformat\<close>, or a validation error from constructing a model.
\<close>

definition parse_optional_float ::
  "('f, 't) pylib \<Rightarrow> (string \<times> attr) list \<Rightarrow> string \<Rightarrow> 'f option option" where
  \<comment> \<open>\<open>float(d[k]["N"]) if k in d else None\<close>\<close>
  "parse_optional_float lib d k =
     (case map_of d k of
        None \<Rightarrow> Some None
      | Some a \<Rightarrow> do { n \<leftarrow> the_N a; x \<leftarrow> float_parse lib n; Some (Some x) })"

definition parse_location :: "('f, 't) pylib \<Rightarrow> item \<Rightarrow> 'f location option" where
  "parse_location lib item =
     do {
       loc \<leftarrow> map_of item ''location'';
       d \<leftarrow> the_M loc;
       st \<leftarrow> map_of d ''state'';
       st \<leftarrow> the_S st;
       di \<leftarrow> map_of d ''district'';
       di \<leftarrow> the_S di;
       vi \<leftarrow> map_of d ''village'';
       vi \<leftarrow> the_S vi;
       la \<leftarrow> parse_optional_float lib d ''latitude'';
       lo \<leftarrow> parse_optional_float lib d ''longitude'';
       Some \<lparr> state = st, district = di, village = vi, latitude = la, longitude = lo \<rparr>
     }"

definition parse_crop :: "('f, 't) pylib \<Rightarrow> attr \<Rightarrow> ('f, 't) crop_info option" where
  "parse_crop lib crop =
     do {
       d \<leftarrow> the_M crop;
       ct \<leftarrow> map_of d ''cropType'';
       ct \<leftarrow> the_S ct;
       a \<leftarrow> map_of d ''area'';
       a \<leftarrow> the_N a;
       a \<leftarrow> float_parse lib a;
       let c = \<lparr> crop_type = ct, area = a, planting_date = None, expected_harvest = None \<rparr>;
       if crop_info_valid lib c then Some c else None
     }"

fun parse_crops :: "('f, 't) pylib \<Rightarrow> attr list \<Rightarrow> ('f, 't) crop_info list option" where
  "parse_crops lib [] = Some []"
| "parse_crops lib (crop # rest) =
     do { c \<leftarrow> parse_crop lib crop; cs \<leftarrow> parse_crops lib rest; Some (c # cs) }"

definition parse_farm_details :: "('f, 't) pylib \<Rightarrow> item \<Rightarrow> ('f, 't) farm_details option" where
  "parse_farm_details lib item =
     do {
       fd \<leftarrow> map_of item ''farmDetails'';
       d \<leftarrow> the_M fd;
       cl \<leftarrow> map_of d ''crops'';
       cl \<leftarrow> the_L cl;
       cs \<leftarrow> parse_crops lib cl;
       ta \<leftarrow> map_of d ''totalLandArea'';
       ta \<leftarrow> the_N ta;
       ta \<leftarrow> float_parse lib ta;
       so \<leftarrow> map_of d ''soilType'';
       so \<leftarrow> the_S so;
       ir \<leftarrow> map_of d ''irrigationType'';
       ir \<leftarrow> the_S ir;
       let f = \<lparr> total_land_area = ta, soil_type = so, irrigation_type = ir, crops = cs \<rparr>;
       if farm_details_valid lib f then Some f else None
     }"

definition parse_preferences :: "item \<Rightarrow> preferences option" where
  "parse_preferences item =
     do {
       pr \<leftarrow> map_of item ''preferences'';
       d \<leftarrow> the_M pr;
       og \<leftarrow> map_of d ''organicFarming'';
       og \<leftarrow> the_BOOL og;
       ri \<leftarrow> map_of d ''riskTolerance'';
       ri \<leftarrow> the_S ri;
       la \<leftarrow> map_of d ''preferredLanguage'';
       la \<leftarrow> the_S la;
       let p = \<lparr> organic_farming = og, risk_tolerance = ri, preferred_language = la \<rparr>;
       if preferences_valid p then Some p else None
     }"

definition parse_farmer_item ::
  "('f, 't) pylib \<Rightarrow> string \<Rightarrow> item \<Rightarrow> ('f, 't) farmer_profile_response option" where
  "parse_farmer_item lib fid item =
     do {
       loc \<leftarrow> parse_location lib item;
       fd \<leftarrow> parse_farm_details lib item;
       pr \<leftarrow> parse_preferences item;
       nm \<leftarrow> map_of item ''name'';
       nm \<leftarrow> the_S nm;
       ph \<leftarrow> map_of item ''phoneNumber'';
       ph \<leftarrow> the_S ph;
       ca \<leftarrow> map_of item ''createdAt'';
       ca \<leftarrow> the_S ca;
       ca \<leftarrow> fromisoformat lib ca;
       ua \<leftarrow> map_of item ''updatedAt'';
       ua \<leftarrow> the_S ua;
       ua \<leftarrow> fromisoformat lib ua;
       Some \<lparr> name = nm, phone_number = ph, location = loc, farm_details = fd,
              preferences = pr, farmer_id = fid, created_at = ca, updated_at = ua \<rparr>
     }"

definition get_farmer_profile ::
  "('f, 't) pylib \<Rightarrow> settings \<Rightarrow> dynamodb \<Rightarrow> string
     \<Rightarrow> ('f, 't) farmer_profile_response http_result" where
  "get_farmer_profile lib st db fid =
     (case get_item db (farmer_profiles_table st) fid of
        None \<Rightarrow> HTTPException 404 ''Farmer profile not found''
      | Some item \<Rightarrow>
          (case parse_farmer_item lib fid item of
             None \<Rightarrow> UnhandledException
           | Some r \<Rightarrow> Returned 200 r))"

subsection \<open>What the create handler stores\<close>

definition stored_location :: "('f, 't) pylib \<Rightarrow> 'f location \<Rightarrow> (string \<times> attr) list" where
  \<comment> \<open>the \<open>location\<close> map of the item, once the optional coordinates are added\<close>
  "stored_location lib l =
     (let d0 = [(''state'', S (state l)), (''district'', S (district l)), (''village'', S (village l))];
          d1 = (case latitude l of None \<Rightarrow> d0 | Some x \<Rightarrow> dict_set ''latitude'' (N (float_str lib x)) d0)
      in (case longitude l of None \<Rightarrow> d1 | Some x \<Rightarrow> dict_set ''longitude'' (N (float_str lib x)) d1))"

definition stored_crop :: "('f, 't) crop_info \<Rightarrow> ('f, 't) crop_info" where
  \<comment> \<open>a crop as it comes back: the item keeps \<open>cropType\<close> and \<open>area\<close> only\<close>
  "stored_crop c = c\<lparr> planting_date := None, expected_harvest := None \<rparr>"

subsection \<open>A concrete library and sample data\<close>

text \<open>
  An instance of the library operations for evaluating the handlers: floats are whole
  numbers and datetimes are counts of seconds, both printed in decimal.
\<close>

fun decimal :: "nat \<Rightarrow> string" where
  "decimal n =
     (if n < 10 then [''0123456789'' ! n] else decimal (n div 10) @ [''0123456789'' ! (n mod 10)])"

definition parse_decimal :: "string \<Rightarrow> nat option" where
  "parse_decimal s =
     (if s \<noteq> [] \<and> list_all is_digit s
      then Some (foldl (\<lambda>a c. 10 * a + (of_char c - 48)) 0 s) else None)"

definition decimal_lib :: "(nat, nat) pylib" where
  "decimal_lib =
     \<lparr> float_str = decimal, float_parse = parse_decimal, float_of_int = nat,
       float_add = (+), float_lt = (<), float_le = (\<le>),
       isoformat = decimal, fromisoformat = parse_decimal \<rparr>"

definition sample_profile :: "string \<Rightarrow> (nat, nat) farmer_profile" where
  \<comment> \<open>a profile with the given phone number and one crop that has a planting date\<close>
  "sample_profile phone =
     \<lparr> name = ''Ram Kumar'', phone_number = phone,
       location = \<lparr> state = ''Uttar Pradesh'', district = ''Lucknow'', village = ''Ramnagar'',
                    latitude = Some 26, longitude = None \<rparr>,
       farm_details = \<lparr> total_land_area = 5, soil_type = ''loamy'', irrigation_type = ''tubewell'',
                        crops = [\<lparr> crop_type = ''wheat'', area = 3,
                                   planting_date = Some 1700000000, expected_harvest = None \<rparr>] \<rparr>,
       preferences = \<lparr> organic_farming = True, risk_tolerance = ''medium'',
                       preferred_language = ''hi'' \<rparr> \<rparr>"

section \<open>Domain models\<close>

text \<open>
  Constructing a Pydantic model either raises \<open>ValidationError\<close>, carrying one message per
  failing field, or yields the object. Python's \<open>sum\<close> adds the items to the integer 0 from
  left to right.
\<close>

datatype validation_error = ValidationError "string list"

definition py_sum :: "('f, 't) pylib \<Rightarrow> 'f list \<Rightarrow> 'f" where
  "py_sum lib xs = foldl (float_add lib) (float_of_int lib 0) xs"

definition lib_lt_asym :: "('f, 't) pylib \<Rightarrow> bool" where
  \<comment> \<open>of two floats at most one is greater than the other\<close>
  "lib_lt_asym lib = (\<forall>a b. float_lt lib a b \<longrightarrow> \<not> float_lt lib b a)"

subsection \<open>core/models/farmer.py\<close>

datatype IrrigationType = DRIP | SPRINKLER | FLOOD | RAINFED | CANAL | BOREWELL

datatype SoilType = ALLUVIAL | BLACK_COTTON | RED_LATERITE | SANDY | CLAY | LOAMY | SALINE

text \<open>
  The field names of this module's classes carry the suffix \<open>_core\<close>, since the router's
  models above use the same names. Dates are day ordinals.
\<close>

record 'f core_crop_info =
  crop_type_core :: string
  area_core :: 'f
  planting_date_core :: "int option"
  expected_harvest_core :: "int option"
  variety_core :: "string option"

record 'f core_farm_details =
  total_land_area_core :: 'f
  soil_type_core :: SoilType
  irrigation_type_core :: IrrigationType
  crops_core :: "'f core_crop_info list"
  water_source_core :: "string option"
  farm_equipment_core :: "string list"

definition validate_total_crop_area ::
  "('f, 't) pylib \<Rightarrow> 'f core_crop_info list \<Rightarrow> 'f option \<Rightarrow> string + 'f core_crop_info list" where
  \<comment> \<open>\<open>FarmDetails.validate_total_crop_area(cls, v, values)\<close>; the third argument \<open>tla\<close> is
      \<open>values['total_land_area']\<close>, absent when that field did not validate\<close>
  "validate_total_crop_area lib v tla =
     (case tla of
        Some t \<Rightarrow>
          if v \<noteq> [] \<and> float_lt lib t (py_sum lib (map area_core v))
          then Inl ''Total crop area cannot exceed farm area''
          else Inr v
      | None \<Rightarrow> Inr v)"

definition FarmDetails_core ::
  "('f, 't) pylib \<Rightarrow> 'f \<Rightarrow> SoilType \<Rightarrow> IrrigationType \<Rightarrow> 'f core_crop_info list
     \<Rightarrow> string option \<Rightarrow> string list \<Rightarrow> validation_error + 'f core_farm_details" where
  \<comment> \<open>\<open>FarmDetails(total_land_area=..., soil_type=..., irrigation_type=..., crops=[...],
      water_source=..., farm_equipment=[...])\<close> with \<open>CropInfo\<close> objects as crops\<close>
  "FarmDetails_core lib tla soil irrigation cs water_source farm_equipment =
     (let area_ok = (float_lt lib (float_of_int lib 0) tla
                     \<and> float_le lib tla (float_of_int lib 10000));
          e1 = (if area_ok then [] else [''total_land_area'']);
          e2 = (case validate_total_crop_area lib cs
                       (if area_ok then Some tla else None) of
                  Inl msg \<Rightarrow> [''crops: '' @ msg]
                | Inr v \<Rightarrow> []);
          e3 = (case water_source of
                  Some w \<Rightarrow> if length w \<le> 100 then [] else [''water_source'']
                | None \<Rightarrow> [])
      in if e1 @ e2 @ e3 = []
         then Inr \<lparr> total_land_area_core = tla, soil_type_core = soil,
                    irrigation_type_core = irrigation, crops_core = cs,
                    water_source_core = water_source, farm_equipment_core = farm_equipment \<rparr>
         else Inl (ValidationError (e1 @ e2 @ e3)))"

subsection \<open>models/farmer.py\<close>

text \<open>
  Here an area is a \<open>Measurement\<close>, a value with a unit. Of \<open>CropInfo\<close> and \<open>FarmDetails\<close>
  the fields that carry a constraint or take part in a validator are kept, with the suffix
  \<open>_dm\<close>; the others are free-form and optional.
\<close>

record 'f measurement =
  value_dm :: 'f
  unit_dm :: string
  precision_dm :: "int option"

record 'f dm_crop_info =
  crop_name_dm :: string
  area_dm :: "'f measurement"

record 'f dm_farm_details =
  total_land_area_dm :: "'f measurement"
  cultivable_area_dm :: "'f measurement option"
  irrigated_area_dm :: "'f measurement option"
  soil_ph_dm :: "'f option"
  crops_dm :: "'f dm_crop_info list"

definition validate_cultivable_area ::
  "('f, 't) pylib \<Rightarrow> 'f measurement option \<Rightarrow> 'f measurement \<Rightarrow> string + 'f measurement option" where
  "validate_cultivable_area lib v tla =
     (case v of
        Some c \<Rightarrow>
          if float_lt lib (value_dm tla) (value_dm c)
          then Inl ''Cultivable area cannot exceed total land area''
          else Inr v
      | None \<Rightarrow> Inr v)"

definition validate_irrigated_area ::
  "('f, 't) pylib \<Rightarrow> 'f measurement option \<Rightarrow> 'f measurement option \<Rightarrow> 'f measurement
     \<Rightarrow> string + 'f measurement option" where
  \<comment> \<open>the second argument is \<open>info.data['cultivable_area']\<close>, \<open>None\<close> also when that field
      did not validate\<close>
  "validate_irrigated_area lib v cultivable_area tla =
     (case v of
        Some i \<Rightarrow>
          (case cultivable_area of
             Some c \<Rightarrow>
               if float_lt lib (value_dm c) (value_dm i)
               then Inl ''Irrigated area cannot exceed cultivable area''
               else Inr v
           | None \<Rightarrow>
               if float_lt lib (value_dm tla) (value_dm i)
               then Inl ''Irrigated area cannot exceed total land area''
               else Inr v)
      | None \<Rightarrow> Inr v)"

definition FarmDetails_dm ::
  "('f, 't) pylib \<Rightarrow> 'f measurement \<Rightarrow> 'f measurement option \<Rightarrow> 'f measurement option
     \<Rightarrow> 'f option \<Rightarrow> 'f dm_crop_info list \<Rightarrow> validation_error + 'f dm_farm_details" where
  "FarmDetails_dm lib tla cultivable_area irrigated_area soil_ph cs =
     (let r1 = validate_cultivable_area lib cultivable_area tla;
          e1 = (case r1 of Inl msg \<Rightarrow> [''cultivable_area: '' @ msg] | Inr v \<Rightarrow> []);
          r2 = validate_irrigated_area lib irrigated_area
                 (case r1 of Inl msg \<Rightarrow> None | Inr v \<Rightarrow> v) tla;
          e2 = (case r2 of Inl msg \<Rightarrow> [''irrigated_area: '' @ msg] | Inr v \<Rightarrow> []);
          e3 = (case soil_ph of
                  Some ph \<Rightarrow>
                    if float_le lib (float_of_int lib 0) ph \<and> float_le lib ph (float_of_int lib 14)
                    then [] else [''soil_ph'']
                | None \<Rightarrow> [])
      in if e1 @ e2 @ e3 = []
         then Inr \<lparr> total_land_area_dm = tla, cultivable_area_dm = cultivable_area,
                    irrigated_area_dm = irrigated_area, soil_ph_dm = soil_ph, crops_dm = cs \<rparr>
         else Inl (ValidationError (e1 @ e2 @ e3)))"

section \<open>Encryption service (core/security/encryption.py)\<close>













subsection \<open>A concrete library\<close>








section \<open>Aadhaar validation\<close>

lemma verhoeff_walk_digits:
  "list_all is_digit s \<Longrightarrow> \<exists>k. verhoeff_walk i c s = Some k"
proof (induction s arbitrary: i c)
  case Nil
  then show ?case by simp
next
  case (Cons x xs)
  then have "is_digit x" "list_all is_digit xs" by simp_all
  then show ?case using Cons.IH by (simp add: int_of_digit_def)
qed

lemma verify_aadhaar_checksum_digits:
  assumes "list_all is_digit s"
  shows "verify_aadhaar_checksum s = Inr (verhoeff_walk 0 0 (rev s) = Some 0)"
proof -
  have "list_all is_digit (rev s)" using assms by (simp add: list_all_iff)
  then obtain k where "verhoeff_walk 0 0 (rev s) = Some k"
    using verhoeff_walk_digits by blast
  then show ?thesis by (simp add: verify_aadhaar_checksum_def)
qed

lemma validate_aadhaar_number_digits:
  assumes "length s = 12" "list_all is_digit s"
  shows "validate_aadhaar_number s =
           Inr (if card (set s) \<noteq> 1 \<and> verhoeff_walk 0 0 (rev s) = Some 0
                then (True, Some s) else (False, None))"
proof -
  have f: "filter is_digit s = s" using assms(2) by (simp add: list_all_iff)
  have ne: "s \<noteq> []" using assms(1) by auto
  show ?thesis
    using ne assms(1) by (simp add: validate_aadhaar_number_def f verify_aadhaar_checksum_digits [OF assms(2)])
qed

text \<open>
  C5. Aadhaar validation: a 12-digit string validates exactly when it does not
  consist of one repeated digit and the Verhoeff walk over the multiplication and
  permutation tables (row \<open>i mod 8\<close>), taken from the right, ends at 0; any other 12-digit
  string is rejected, and so is every all-identical one whatever its walk.
\<close>

theorem validate_aadhaar_number_spec:
  assumes "length s = 12" "list_all is_digit s"
  shows "(validate_aadhaar_number s = Inr (True, Some s)
            \<longleftrightarrow> card (set s) \<noteq> 1 \<and> verhoeff_walk 0 0 (rev s) = Some 0)
       \<and> (validate_aadhaar_number s \<noteq> Inr (True, Some s)
            \<longrightarrow> validate_aadhaar_number s = Inr (False, None))
       \<and> ((\<exists>c. s = replicate 12 c) \<longrightarrow> validate_aadhaar_number s = Inr (False, None))"
proof -
  note v = validate_aadhaar_number_digits [OF assms]
  have "(\<exists>c. s = replicate 12 c) \<longrightarrow> card (set s) = 1" by auto
  then show ?thesis unfolding v by auto
qed

text \<open>
  C5 names 499118665932 as a valid number; it does not validate, its walk ends at 2.
\<close>

theorem aadhaar_499118665932_counterexample:
  "validate_aadhaar_number ''499118665932'' = Inr (False, None)
   \<and> verhoeff_walk 0 0 (rev ''499118665932'') = Some 2"
  by code_simp

theorem validate_aadhaar_number_spec_witness:
  "length ''499118665246'' = 12 \<and> list_all is_digit ''499118665246''
   \<and> validate_aadhaar_number ''499118665246'' = Inr (True, Some ''499118665246'')
   \<and> verhoeff_walk 0 0 (rev ''333333333333'') = Some 0
   \<and> validate_aadhaar_number ''333333333333'' = Inr (False, None)"
proof -
  have a: "length ''499118665246'' = 12" by simp
  have b: "list_all is_digit ''499118665246''" by (simp add: is_digit_def)
  have c: "length ''333333333333'' = 12" by simp
  have d: "list_all is_digit ''333333333333''" by (simp add: is_digit_def)
  have e: "verhoeff_walk 0 0 (rev ''499118665246'') = Some 0" by code_simp
  have f: "verhoeff_walk 0 0 (rev ''333333333333'') = Some 0" by code_simp
  have g: "card (set ''499118665246'') \<noteq> 1" by code_simp
  have h: "''333333333333'' = replicate 12 CHR ''3''" by code_simp
  from validate_aadhaar_number_spec [OF a b] e g
  have "validate_aadhaar_number ''499118665246'' = Inr (True, Some ''499118665246'')" by blast
  moreover from validate_aadhaar_number_spec [OF c d] h
  have "validate_aadhaar_number ''333333333333'' = Inr (False, None)" by blast
  ultimately show ?thesis using a b f by blast
qed

section \<open>Phone validation\<close>




lemma plus_not_decimal: "\<not> unicode_decimal 43"
  by (simp add: unicode_decimal_def nd_ranges_def)



























section \<open>Text truncation\<close>

lemma py_rfind_less: "0 \<le> e \<Longrightarrow> py_rfind c s e < e"
proof -
  assume e: "0 \<le> e"
  let ?m = "min (nat e) (length s)"
  let ?hits = "filter (\<lambda>i. s ! i = c) [0..<?m]"
  show ?thesis
  proof (cases "?hits = []")
    case True
    then show ?thesis using e by (simp add: py_rfind_def Let_def)
  next
    case False
    then have "last ?hits \<in> set ?hits" by (rule last_in_set)
    then have "last ?hits < ?m" by auto
    then have "int (last ?hits) < e" using e by linarith
    then show ?thesis using False e by (simp add: py_rfind_def Let_def)
  qed
qed

lemma length_py_take: "0 \<le> n \<Longrightarrow> length (py_take n xs) = min (nat n) (length xs)"
  by (simp add: py_take_def)

text \<open>
  C10. \<open>truncate_text\<close> respects its bound: for every text, suffix and non-negative
  \<open>max_length\<close>, a text no longer than \<open>max_length\<close> is returned unchanged, and a longer
  one is cut to a result of length at most \<open>max_length\<close>.
\<close>

theorem truncate_text_bound:
  assumes "0 \<le> max_length"
  shows "(int (length text) \<le> max_length \<longrightarrow> truncate_text text max_length suffix = text)
       \<and> (int (length text) > max_length \<longrightarrow>
            int (length (truncate_text text max_length suffix)) \<le> max_length)"
proof (intro conjI impI)
  assume "int (length text) \<le> max_length"
  then show "truncate_text text max_length suffix = text" by (simp add: truncate_text_def)
next
  assume long: "int (length text) > max_length"
  then have ne: "text \<noteq> []" using assms by auto
  show "int (length (truncate_text text max_length suffix)) \<le> max_length"
  proof (cases "max_length > int (length suffix)")
    case False
    then show ?thesis using long ne assms
      by (simp add: truncate_text_def length_py_take)
  next
    case True
    define ta where "ta = max_length - int (length suffix)"
    define ls where "ls = py_rfind CHR '' '' text ta"
    have ta0: "0 \<le> ta" using True by (simp add: ta_def)
    have lslt: "ls < ta" unfolding ls_def using ta0 by (rule py_rfind_less)
    show ?thesis
    proof (cases "ls > max_length div 2")
      case T2: True
      then have ls0: "0 \<le> ls" using assms by linarith
      have "truncate_text text max_length suffix = py_take ls text @ suffix"
        using long ne True T2 by (simp add: truncate_text_def Let_def ta_def ls_def)
      moreover have "int (length (py_take ls text)) \<le> ls"
        using ls0 by (simp add: length_py_take)
      ultimately show ?thesis using lslt by (simp add: ta_def)
    next
      case F2: False
      have "truncate_text text max_length suffix = py_take ta text @ suffix"
        using long ne True F2 by (simp add: truncate_text_def Let_def ta_def ls_def)
      moreover have "int (length (py_take ta text)) \<le> ta"
        using ta0 by (simp add: length_py_take)
      ultimately show ?thesis by (simp add: ta_def)
    qed
  qed
qed

theorem truncate_text_bound_witness:
  "(0::int) \<le> 11 \<and> int (length ''ab cd ef gh ij'') > 11
   \<and> int (length (truncate_text ''ab cd ef gh ij'' 11 ''...'')) \<le> 11
   \<and> int (length ''ab cd'') \<le> 11 \<and> truncate_text ''ab cd'' 11 ''...'' = ''ab cd''"
  using truncate_text_bound [of 11 "''ab cd ef gh ij''" "''...''"]
        truncate_text_bound [of 11 "''ab cd''" "''...''"]
  by simp

section \<open>WhatsApp webhook verification\<close>








text \<open>
  C9. When the verify-token setting is absent, which is its default, the verification
  handler answers 403 whatever mode, token and challenge the caller supplies.
\<close>

theorem verify_webhook_unconfigured:
  assumes "whatsapp_verify_token st = None"
  shows "verify_webhook st hub_mode hub_challenge hub_verify_token
           = HTTPException 403 ''Invalid verification token''"
  using assms by (simp add: verify_webhook_def)

theorem verify_webhook_unconfigured_witness:
  "whatsapp_verify_token (get_settings Map.empty) = None
   \<and> verify_webhook (get_settings Map.empty) ''subscribe'' ''1158201444'' ''''
        = HTTPException 403 ''Invalid verification token''"
  using verify_webhook_unconfigured [of "get_settings Map.empty" "''subscribe''" "''1158201444''" "''''"]
  by (simp add: get_settings_def)

section \<open>Phone masking\<close>

lemma stars_no_digit: "filter is_digit ''****'' = []"
  by (simp add: is_digit_def)

lemma mask_phone_number_eq:
  "mask_phone_number p = ''****'' @ (if length p < 4 then [] else drop (length p - 4) p)"
  by (auto simp: mask_phone_number_def py_drop_def)

lemma mask_phone_number_digits: "length (filter is_digit (mask_phone_number p)) \<le> 4"
proof -
  have "length (filter is_digit (drop (length p - 4) p)) \<le> length (drop (length p - 4) p)"
    by (rule length_filter_le)
  also have "\<dots> \<le> 4" by simp
  finally have "length (filter is_digit (drop (length p - 4) p)) \<le> 4" .
  then show ?thesis
    unfolding mask_phone_number_eq filter_append stars_no_digit by simp
qed

text \<open>
  C7 does not hold of \<open>mask_sensitive_data\<close>: masking \<open>+919876543210\<close> as a phone keeps the
  leading nine characters, among them the digit 8, which is not one of the last four.
\<close>

theorem mask_sensitive_data_phone_counterexample:
  "mask_sensitive_data ''+919876543210'' ''phone'' = ''+91987654****''
   \<and> CHR ''8'' \<in> set (mask_sensitive_data ''+919876543210'' ''phone'')
   \<and> CHR ''8'' \<notin> set (py_drop (- 4) ''+919876543210'')"
  by (simp add: mask_sensitive_data_def py_take_def py_drop_def)

text \<open>
  C7. Both maskers are functions of their input alone. The output of
  \<open>DataMasking.mask_phone_number\<close> is four stars followed by the last four characters of
  the input (nothing for an input shorter than four), so it is the same for any two
  numbers with the same last four characters and holds at most four digits.
  \<open>mask_sensitive_data\<close> with type \<open>phone\<close> does the opposite: for ten characters or more
  it keeps everything but the last four, which it replaces by stars; a shorter input gives
  four stars and the empty input the empty string.
\<close>

theorem mask_phone_spec:
  "(p = q \<longrightarrow> mask_phone_number p = mask_phone_number q
               \<and> mask_sensitive_data p ''phone'' = mask_sensitive_data q ''phone'')
   \<and> mask_phone_number p = ''****'' @ (if length p < 4 then [] else drop (length p - 4) p)
   \<and> (4 \<le> length p \<and> 4 \<le> length q \<and> drop (length p - 4) p = drop (length q - 4) q
        \<longrightarrow> mask_phone_number p = mask_phone_number q)
   \<and> length (filter is_digit (mask_phone_number p)) \<le> 4
   \<and> (10 \<le> length p \<longrightarrow> mask_sensitive_data p ''phone'' = take (length p - 4) p @ ''****'')
   \<and> (p \<noteq> [] \<and> length p < 10 \<longrightarrow> mask_sensitive_data p ''phone'' = ''****'')
   \<and> mask_sensitive_data [] ''phone'' = []"
proof -
  have a: "4 \<le> length p \<and> 4 \<le> length q \<and> drop (length p - 4) p = drop (length q - 4) q
        \<longrightarrow> mask_phone_number p = mask_phone_number q"
    by (simp add: mask_phone_number_eq)
  have b: "10 \<le> length p \<longrightarrow> mask_sensitive_data p ''phone'' = take (length p - 4) p @ ''****''"
    by (auto simp: mask_sensitive_data_def py_take_def)
  have c: "p \<noteq> [] \<and> length p < 10 \<longrightarrow> mask_sensitive_data p ''phone'' = ''****''"
    by (simp add: mask_sensitive_data_def)
  have d: "mask_sensitive_data [] ''phone'' = []" by (simp add: mask_sensitive_data_def)
  show ?thesis using a b c d mask_phone_number_eq [of p] mask_phone_number_digits [of p] by blast
qed

theorem mask_phone_spec_witness:
  "mask_phone_number ''+919876543210'' = ''****3210''
   \<and> mask_phone_number ''+919876543210'' = mask_phone_number ''+918888883210''
   \<and> mask_sensitive_data ''+919876543210'' ''phone'' = ''+91987654****''
   \<and> mask_sensitive_data ''12345'' ''phone'' = ''****''"
  using mask_phone_spec [of "''+919876543210''" "''+918888883210''"]
        mask_phone_spec [of "''12345''" "''12345''"]
  by auto

section \<open>Farmer profiles: create, get and the phone pattern\<close>

lemma map_of_dict_set: "map_of (dict_set k v d) = (map_of d)(k \<mapsto> v)"
  by (induction d) (auto simp: fun_eq_iff)

lemma parse_optional_float_absent:
  "map_of d k = None \<Longrightarrow> parse_optional_float lib d k = Some None"
  by (simp add: parse_optional_float_def)

lemma parse_optional_float_present:
  "lib_roundtrips lib \<Longrightarrow> map_of d k = Some (N (float_str lib x)) \<Longrightarrow>
   parse_optional_float lib d k = Some (Some x)"
  by (simp add: parse_optional_float_def lib_roundtrips_def)

lemma farmer_item_location:
  "map_of (farmer_item lib fid now p) ''location'' = Some (M (stored_location lib (location p)))"
  by (cases "latitude (location p)"; cases "longitude (location p)")
     (simp_all add: farmer_item_def stored_location_def Let_def)

lemma farmer_item_other:
  "k \<noteq> ''location'' \<Longrightarrow>
   map_of (farmer_item lib fid now p) k =
   map_of [(''farmerId'', S fid),
         (''name'', S (name p)),
         (''phoneNumber'', S (phone_number p)),
         (''farmDetails'', M
            [(''totalLandArea'', N (float_str lib (total_land_area (farm_details p)))),
             (''soilType'', S (soil_type (farm_details p))),
             (''irrigationType'', S (irrigation_type (farm_details p))),
             (''crops'', L
                (map (\<lambda>crop. M [(''cropType'', S (crop_type crop)),
                                 (''area'', N (float_str lib (area crop)))])
                     (crops (farm_details p))))]),
         (''preferences'', M
            [(''organicFarming'', BOOL (organic_farming (preferences p))),
             (''riskTolerance'', S (risk_tolerance (preferences p))),
             (''preferredLanguage'', S (preferred_language (preferences p)))]),
         (''createdAt'', S (isoformat lib now)),
         (''updatedAt'', S (isoformat lib now))] k"
  by (cases "latitude (location p)"; cases "longitude (location p)")
     (simp_all add: farmer_item_def Let_def)

lemma parse_location_stored:
  assumes "lib_roundtrips lib"
  shows "parse_location lib (farmer_item lib fid now p) = Some (location p)"
proof -
  let ?l = "location p"
  let ?d = "stored_location lib ?l"
  have st: "map_of ?d ''state'' = Some (S (state ?l))"
    and di: "map_of ?d ''district'' = Some (S (district ?l))"
    and vi: "map_of ?d ''village'' = Some (S (village ?l))"
    by (cases "latitude ?l"; cases "longitude ?l";
        simp add: stored_location_def Let_def map_of_dict_set)+
  have la: "parse_optional_float lib ?d ''latitude'' = Some (latitude ?l)"
    by (cases "latitude ?l"; cases "longitude ?l")
       (simp_all add: stored_location_def Let_def map_of_dict_set
          parse_optional_float_absent parse_optional_float_present [OF assms])
  have lo: "parse_optional_float lib ?d ''longitude'' = Some (longitude ?l)"
    by (cases "latitude ?l"; cases "longitude ?l")
       (simp_all add: stored_location_def Let_def map_of_dict_set
          parse_optional_float_absent parse_optional_float_present [OF assms])
  show ?thesis
    by (simp add: parse_location_def farmer_item_location st di vi la lo)
qed

lemma parse_crop_stored:
  assumes "lib_roundtrips lib" "crop_info_valid lib c"
  shows "parse_crop lib (M [(''cropType'', S (crop_type c)), (''area'', N (float_str lib (area c)))])
           = Some (stored_crop c)"
proof -
  have fp: "float_parse lib (float_str lib (area c)) = Some (area c)"
    using assms(1) by (simp add: lib_roundtrips_def)
  have v: "crop_info_valid lib \<lparr> crop_type = crop_type c, area = area c,
                                 planting_date = None, expected_harvest = None \<rparr>"
    using assms(2) by (simp add: crop_info_valid_def)
  show ?thesis by (simp add: parse_crop_def fp v stored_crop_def)
qed

lemma parse_crops_stored:
  assumes "lib_roundtrips lib"
  shows "list_all (crop_info_valid lib) cs \<Longrightarrow>
         parse_crops lib (map (\<lambda>crop. M [(''cropType'', S (crop_type crop)),
                                          (''area'', N (float_str lib (area crop)))]) cs)
           = Some (map stored_crop cs)"
proof (induction cs)
  case Nil
  show ?case by simp
next
  case (Cons c cs)
  then have "crop_info_valid lib c" "list_all (crop_info_valid lib) cs" by simp_all
  then show ?case using Cons.IH parse_crop_stored [OF assms] by simp
qed

lemma stored_crops_valid:
  "list_all (crop_info_valid lib) cs \<Longrightarrow> list_all (crop_info_valid lib) (map stored_crop cs)"
  by (induction cs) (simp_all add: crop_info_valid_def stored_crop_def)

lemma parse_farm_details_stored:
  assumes "lib_roundtrips lib" "farm_details_valid lib (farm_details p)"
  shows "parse_farm_details lib (farmer_item lib fid now p)
           = Some ((farm_details p)\<lparr> crops := map stored_crop (crops (farm_details p)) \<rparr>)"
proof -
  let ?f = "farm_details p"
  have cv: "list_all (crop_info_valid lib) (crops ?f)"
    and tv: "float_lt lib (float_of_int lib 0) (total_land_area ?f)"
    using assms(2) by (simp_all add: farm_details_valid_def)
  have fp: "float_parse lib (float_str lib (total_land_area ?f)) = Some (total_land_area ?f)"
    using assms(1) by (simp add: lib_roundtrips_def)
  have v: "farm_details_valid lib
             \<lparr> total_land_area = total_land_area ?f, soil_type = soil_type ?f,
               irrigation_type = irrigation_type ?f, crops = map stored_crop (crops ?f) \<rparr>"
    using tv stored_crops_valid [OF cv] by (simp add: farm_details_valid_def)
  show ?thesis
    by (simp add: parse_farm_details_def farmer_item_other parse_crops_stored [OF assms(1) cv] fp v)
qed

lemma parse_preferences_stored:
  assumes "preferences_valid (preferences p)"
  shows "parse_preferences (farmer_item lib fid now p) = Some (preferences p)"
proof -
  have "preferences_valid \<lparr> organic_farming = organic_farming (preferences p),
          risk_tolerance = risk_tolerance (preferences p),
          preferred_language = preferred_language (preferences p) \<rparr>"
    using assms unfolding preferences_valid_def by simp
  then show ?thesis by (simp add: parse_preferences_def farmer_item_other Let_def)
qed

lemma parse_farmer_item_stored:
  assumes "lib_roundtrips lib" "farmer_profile_valid lib p"
  shows "parse_farmer_item lib fid (farmer_item lib fid now p) =
           Some \<lparr> name = name p, phone_number = phone_number p, location = location p,
                  farm_details = (farm_details p)\<lparr> crops := map stored_crop (crops (farm_details p)) \<rparr>,
                  preferences = preferences p, farmer_id = fid,
                  created_at = now, updated_at = now \<rparr>"
proof -
  have fv: "farm_details_valid lib (farm_details p)" and pv: "preferences_valid (preferences p)"
    using assms(2) by (simp_all add: farmer_profile_valid_def)
  have iso: "fromisoformat lib (isoformat lib now) = Some now"
    using assms(1) by (simp add: lib_roundtrips_def)
  show ?thesis
    by (simp add: parse_farmer_item_def parse_location_stored [OF assms(1)]
          parse_farm_details_stored [OF assms(1) fv] parse_preferences_stored [OF pv]
          farmer_item_other iso)
qed

lemma farmer_item_key: "map_of (farmer_item lib fid now p) ''farmerId'' = Some (S fid)"
  by (simp add: farmer_item_other)

lemma post_farmers_fresh:
  assumes "farmer_profile_valid lib p" "db (farmer_profiles_table st, fid) = None"
  shows "post_farmers lib st db fid now p =
           (Returned 201 (farmer_profile.extend p (farmer_profile_response.fields fid now now)),
            db((farmer_profiles_table st, fid) \<mapsto> farmer_item lib fid now p))"
  using assms
  by (simp add: post_farmers_def create_farmer_profile_def put_item_not_exists_def farmer_item_key)

lemma digit_char: "d < 10 \<Longrightarrow> is_digit (''0123456789'' ! d) \<and> of_char (''0123456789'' ! d) - 48 = (d::nat)"
proof -
  assume "d < 10"
  then have "d \<in> {0,1,2,3,4,5,6,7,8,9}" by auto
  then show ?thesis by (auto simp: is_digit_def)
qed

declare decimal.simps [simp del]

lemma decimal_digits: "decimal n \<noteq> [] \<and> list_all is_digit (decimal n)"
proof (induction n rule: decimal.induct)
  case (1 n)
  show ?case
  proof (cases "n < 10")
    case True
    then show ?thesis using digit_char [of n] by (subst decimal.simps, simp)+
  next
    case False
    have "n mod 10 < 10" by simp
    then have "is_digit (''0123456789'' ! (n mod 10))" using digit_char by blast
    then show ?thesis using False 1 by (subst decimal.simps, simp)+
  qed
qed

lemma decimal_value: "foldl (\<lambda>a c. 10 * a + (of_char c - 48)) 0 (decimal n) = n"
proof (induction n rule: decimal.induct)
  case (1 n)
  show ?case
  proof (cases "n < 10")
    case True
    then show ?thesis using digit_char [of n] by (subst decimal.simps) simp
  next
    case False
    have "n mod 10 < 10" by simp
    then have "of_char (''0123456789'' ! (n mod 10)) - 48 = n mod 10" using digit_char by blast
    then show ?thesis using False 1 by (subst decimal.simps) simp
  qed
qed

lemma parse_decimal_decimal: "parse_decimal (decimal n) = Some n"
  using decimal_digits [of n] decimal_value [of n] by (simp add: parse_decimal_def)

lemma decimal_lib_roundtrips: "lib_roundtrips decimal_lib"
  by (simp add: lib_roundtrips_def decimal_lib_def parse_decimal_decimal)

lemma get_after_post:
  assumes "lib_roundtrips lib" "farmer_profile_valid lib p" "db (farmer_profiles_table st, fid) = None"
  shows "get_farmer_profile lib st (snd (post_farmers lib st db fid now p)) fid =
           Returned 200
             \<lparr> name = name p, phone_number = phone_number p, location = location p,
               farm_details = (farm_details p)\<lparr> crops := map stored_crop (crops (farm_details p)) \<rparr>,
               preferences = preferences p, farmer_id = fid,
               created_at = now, updated_at = now \<rparr>"
  by (simp add: post_farmers_fresh assms(2,3) get_farmer_profile_def get_item_def
        parse_farmer_item_stored [OF assms(1,2)])

lemma stored_crop_fields:
  "map crop_type (map stored_crop cs) = map crop_type cs"
  "map area (map stored_crop cs) = map area cs"
  by (simp_all add: stored_crop_def)

text \<open>
  C1. Create then get: for every profile the request validation accepts, when
  the conditional put succeeds (the generated id is not yet in the table), the create
  handler answers 201 with the generated id, and a GET of that id on the resulting state
  answers 200 with the submitted name, phone number, location (optional coordinates
  included), total land area, soil type, irrigation type, each crop's type and area, and
  preferences, and with \<open>created_at\<close> equal to \<open>updated_at\<close>. The library's
  \<open>float(str(x)) == x\<close> and \<open>fromisoformat(isoformat(t)) == t\<close> are assumed.
\<close>

theorem create_then_get_roundtrip:
  assumes "lib_roundtrips lib" "farmer_profile_valid lib p" "db (farmer_profiles_table st, fid) = None"
  shows "\<exists>r r'. fst (post_farmers lib st db fid now p) = Returned 201 r
            \<and> farmer_id r = fid
            \<and> get_farmer_profile lib st (snd (post_farmers lib st db fid now p)) fid = Returned 200 r'
            \<and> farmer_id r' = fid
            \<and> name r' = name p
            \<and> phone_number r' = phone_number p
            \<and> location r' = location p
            \<and> total_land_area (farm_details r') = total_land_area (farm_details p)
            \<and> soil_type (farm_details r') = soil_type (farm_details p)
            \<and> irrigation_type (farm_details r') = irrigation_type (farm_details p)
            \<and> map crop_type (crops (farm_details r')) = map crop_type (crops (farm_details p))
            \<and> map area (crops (farm_details r')) = map area (crops (farm_details p))
            \<and> preferences r' = preferences p
            \<and> created_at r' = updated_at r'"
proof -
  have a: "fst (post_farmers lib st db fid now p) =
             Returned 201 (farmer_profile.extend p (farmer_profile_response.fields fid now now))"
    by (simp add: post_farmers_fresh assms(2,3))
  have b: "farmer_id (farmer_profile.extend p (farmer_profile_response.fields fid now now)) = fid"
    by (simp add: farmer_profile.defs farmer_profile_response.defs)
  show ?thesis
    apply (rule exI [of _ "farmer_profile.extend p (farmer_profile_response.fields fid now now)"])
    apply (rule exI [of _ "\<lparr> name = name p, phone_number = phone_number p, location = location p,
               farm_details = (farm_details p)\<lparr> crops := map stored_crop (crops (farm_details p)) \<rparr>,
               preferences = preferences p, farmer_id = fid,
               created_at = now, updated_at = now \<rparr>"])
    apply (simp add: a b get_after_post assms stored_crop_def)
    done
qed

lemma post_farmers_conflict:
  assumes "farmer_profile_valid lib p" "db (farmer_profiles_table st, fid) = Some old"
  shows "post_farmers lib st db fid now p = (HTTPException 409 ''Farmer profile already exists'', db)"
  using assms
  by (simp add: post_farmers_def create_farmer_profile_def put_item_not_exists_def farmer_item_key)

lemma sample_profile_valid:
  "phone_pattern phone \<Longrightarrow> farmer_profile_valid decimal_lib (sample_profile phone)"
  by (simp add: farmer_profile_valid_def farm_details_valid_def crop_info_valid_def
        preferences_valid_def sample_profile_def decimal_lib_def)

lemma phone_pattern_samples:
  "phone_pattern ''+919876543210''" "phone_pattern ''+14155552671''"
  by (simp_all add: phone_pattern_def is_digit_def)

theorem create_then_get_roundtrip_witness:
  "lib_roundtrips decimal_lib
   \<and> farmer_profile_valid decimal_lib (sample_profile ''+919876543210'')
   \<and> (\<exists>r r'. fst (post_farmers decimal_lib (get_settings Map.empty) Map.empty ''id-1'' 1750000000
                    (sample_profile ''+919876543210'')) = Returned 201 r
          \<and> farmer_id r = ''id-1''
          \<and> get_farmer_profile decimal_lib (get_settings Map.empty)
               (snd (post_farmers decimal_lib (get_settings Map.empty) Map.empty ''id-1'' 1750000000
                       (sample_profile ''+919876543210''))) ''id-1'' = Returned 200 r'
          \<and> name r' = ''Ram Kumar''
          \<and> phone_number r' = ''+919876543210''
          \<and> latitude (location r') = Some 26
          \<and> map area (crops (farm_details r')) = [3]
          \<and> created_at r' = updated_at r')"
proof -
  have v: "farmer_profile_valid decimal_lib (sample_profile ''+919876543210'')"
    by (rule sample_profile_valid [OF phone_pattern_samples(1)])
  have f: "Map.empty (farmer_profiles_table (get_settings Map.empty), ''id-1'') = None" by simp
  from create_then_get_roundtrip [of decimal_lib "sample_profile ''+919876543210''" Map.empty
         "get_settings Map.empty" "''id-1''" 1750000000, OF decimal_lib_roundtrips v f]
  obtain r r' where
    "fst (post_farmers decimal_lib (get_settings Map.empty) Map.empty ''id-1'' 1750000000
            (sample_profile ''+919876543210'')) = Returned 201 r"
    "farmer_id r = ''id-1''"
    "get_farmer_profile decimal_lib (get_settings Map.empty)
       (snd (post_farmers decimal_lib (get_settings Map.empty) Map.empty ''id-1'' 1750000000
               (sample_profile ''+919876543210''))) ''id-1'' = Returned 200 r'"
    "name r' = name (sample_profile ''+919876543210'')"
    "phone_number r' = phone_number (sample_profile ''+919876543210'')"
    "location r' = location (sample_profile ''+919876543210'')"
    "map area (crops (farm_details r')) = map area (crops (farm_details (sample_profile ''+919876543210'')))"
    "created_at r' = updated_at r'"
    by blast
  then show ?thesis using decimal_lib_roundtrips v
    by (auto simp: sample_profile_def)
qed

text \<open>
  C1 does not hold as the specification words it, on two counts. A crop's planting date
  is not written to the item, so it comes back absent; and when the table already holds
  the generated id, the guarded put fails and the answer is 409, not 201.
\<close>

theorem create_then_get_counterexample:
  "farmer_profile_valid decimal_lib (sample_profile ''+919876543210'')
   \<and> status_code (fst (post_farmers decimal_lib (get_settings Map.empty) Map.empty ''id-1'' 1750000000
                         (sample_profile ''+919876543210''))) = 201
   \<and> map planting_date (crops (farm_details (sample_profile ''+919876543210''))) = [Some 1700000000]
   \<and> (case get_farmer_profile decimal_lib (get_settings Map.empty)
              (snd (post_farmers decimal_lib (get_settings Map.empty) Map.empty ''id-1'' 1750000000
                      (sample_profile ''+919876543210''))) ''id-1'' of
         Returned c r \<Rightarrow> c = 200 \<and> map planting_date (crops (farm_details r)) = [None]
       | _ \<Rightarrow> False)
   \<and> status_code (fst (post_farmers decimal_lib (get_settings Map.empty)
                         [(farmer_profiles_table (get_settings Map.empty), ''id-1'') \<mapsto> []]
                         ''id-1'' 1750000000 (sample_profile ''+919876543210''))) = 409"
proof -
  have v: "farmer_profile_valid decimal_lib (sample_profile ''+919876543210'')"
    by (rule sample_profile_valid [OF phone_pattern_samples(1)])
  have f: "Map.empty (farmer_profiles_table (get_settings Map.empty), ''id-1'') = None" by simp
  have a: "status_code (fst (post_farmers decimal_lib (get_settings Map.empty) Map.empty ''id-1''
                          1750000000 (sample_profile ''+919876543210''))) = 201"
    by (simp add: post_farmers_fresh v)
  have b: "map planting_date (crops (farm_details (sample_profile ''+919876543210'')))
             = [Some 1700000000]"
    by (simp add: sample_profile_def)
  have c: "(case get_farmer_profile decimal_lib (get_settings Map.empty)
              (snd (post_farmers decimal_lib (get_settings Map.empty) Map.empty ''id-1'' 1750000000
                      (sample_profile ''+919876543210''))) ''id-1'' of
         Returned c r \<Rightarrow> c = 200 \<and> map planting_date (crops (farm_details r)) = [None]
       | _ \<Rightarrow> False)"
    unfolding get_after_post [of decimal_lib _ Map.empty, OF decimal_lib_roundtrips v f]
    by (simp add: sample_profile_def stored_crop_def)
  have d: "status_code (fst (post_farmers decimal_lib (get_settings Map.empty)
                         [(farmer_profiles_table (get_settings Map.empty), ''id-1'') \<mapsto> []]
                         ''id-1'' 1750000000 (sample_profile ''+919876543210''))) = 409"
    by (simp add: post_farmers_conflict [where old = "[]"] v)
  from v a b c d show ?thesis by blast
qed

lemma create_never_422:
  "status_code (fst (create_farmer_profile lib st db fid now p)) \<noteq> 422"
  by (simp add: create_farmer_profile_def split: sum.splits client_error.splits)

lemma post_farmers_phone_validation:
  "(\<not> phone_pattern (phone_number body) \<longrightarrow>
      post_farmers lib st db fid now body = (RequestValidationError, db))
   \<and> (farm_details_valid lib (farm_details body) \<and> preferences_valid (preferences body) \<longrightarrow>
        (status_code (fst (post_farmers lib st db fid now body)) = 422
           \<longleftrightarrow> \<not> phone_pattern (phone_number body)))"
proof -
  have a: "\<not> phone_pattern (phone_number body) \<longrightarrow>
             post_farmers lib st db fid now body = (RequestValidationError, db)"
    by (simp add: post_farmers_def farmer_profile_valid_def)
  have b: "farm_details_valid lib (farm_details body) \<and> preferences_valid (preferences body) \<longrightarrow>
        (status_code (fst (post_farmers lib st db fid now body)) = 422
           \<longleftrightarrow> \<not> phone_pattern (phone_number body))"
    using create_never_422 [of lib st db fid now body]
    by (simp add: post_farmers_def farmer_profile_valid_def)
  from a b show ?thesis by blast
qed

text \<open>
  C2. The mounted create operation checks the phone number against \<open>^[+]?[1-9]\d{1,14}$\<close>
  and nothing more, so it does not hold the Indian pattern: a body with the United States
  number \<open>+14155552671\<close>, which does not begin with \<open>+91\<close> and is not 13 characters long, is
  accepted and answered with 201, where the specification and the repository's own
  validation test expect 422.
\<close>

theorem post_farmers_accepts_foreign_phone:
  "\<not> startswith ''+14155552671'' ''+91''
   \<and> length ''+14155552671'' \<noteq> 13
   \<and> phone_pattern ''+14155552671''
   \<and> status_code (fst (post_farmers decimal_lib (get_settings Map.empty) Map.empty ''id-1'' 1750000000
                         (sample_profile ''+14155552671''))) = 201"
proof -
  have v: "farmer_profile_valid decimal_lib (sample_profile ''+14155552671'')"
    by (rule sample_profile_valid [OF phone_pattern_samples(2)])
  have a: "\<not> startswith ''+14155552671'' ''+91''" "length ''+14155552671'' \<noteq> 13"
    by (simp_all add: startswith_def)
  have b: "status_code (fst (post_farmers decimal_lib (get_settings Map.empty) Map.empty ''id-1''
                          1750000000 (sample_profile ''+14155552671''))) = 201"
    by (simp add: post_farmers_fresh v)
  from a b phone_pattern_samples(2) show ?thesis by blast
qed

section \<open>The crop-area invariant\<close>

lemma FarmDetails_core_over:
  assumes "lib_lt_asym lib" "float_lt lib tla (py_sum lib (map area_core cs))"
  shows "isl (FarmDetails_core lib tla soil irr cs water eq)"
proof (cases "float_lt lib (float_of_int lib 0) tla \<and> float_le lib tla (float_of_int lib 10000)")
  case False
  then show ?thesis by (auto simp: FarmDetails_core_def Let_def)
next
  case True
  have "cs \<noteq> []"
  proof
    assume "cs = []"
    then have "float_lt lib tla (float_of_int lib 0)" using assms(2) by (simp add: py_sum_def)
    moreover have "float_lt lib (float_of_int lib 0) tla" using True by simp
    ultimately show False using assms(1) unfolding lib_lt_asym_def by blast
  qed
  then have "validate_total_crop_area lib cs (Some tla)
               = Inl ''Total crop area cannot exceed farm area''"
    using assms(2) by (simp add: validate_total_crop_area_def)
  then show ?thesis using True by (simp add: FarmDetails_core_def Let_def)
qed

lemma FarmDetails_core_exact:
  assumes "lib_lt_asym lib" "py_sum lib (map area_core cs) = tla"
    "float_lt lib (float_of_int lib 0) tla" "float_le lib tla (float_of_int lib 10000)"
    "case water of Some w \<Rightarrow> length w \<le> 100 | None \<Rightarrow> True"
  shows "FarmDetails_core lib tla soil irr cs water eq =
           Inr \<lparr> total_land_area_core = tla, soil_type_core = soil,
                 irrigation_type_core = irr, crops_core = cs,
                 water_source_core = water, farm_equipment_core = eq \<rparr>"
proof -
  have "\<not> float_lt lib tla tla" using assms(1) unfolding lib_lt_asym_def by blast
  then have "validate_total_crop_area lib cs (Some tla) = Inr cs"
    using assms(2) by (simp add: validate_total_crop_area_def)
  then show ?thesis using assms(3,4,5)
    by (cases water) (simp_all add: FarmDetails_core_def Let_def)
qed

lemma FarmDetails_dm_unchecked:
  "FarmDetails_dm lib tla None None None cs =
     Inr \<lparr> total_land_area_dm = tla, cultivable_area_dm = None,
           irrigated_area_dm = None, soil_ph_dm = None, crops_dm = cs \<rparr>"
  by (simp add: FarmDetails_dm_def validate_cultivable_area_def validate_irrigated_area_def)

text \<open>
  C3. For \<open>FarmDetails\<close> of core/models/farmer.py: constructing farm details
  whose crop areas sum (Python's \<open>sum\<close>) to more than the total land area raises a
  validation error, and constructing one whose crop areas sum to exactly the total land
  area succeeds when the other field constraints hold (total area in (0, 10000], water
  source of at most 100 characters). \<open>FarmDetails\<close> of models/farmer.py has no check on
  the crops: with no cultivable area, irrigated area and soil pH given it is constructed
  whatever the crops are.
\<close>

theorem crop_area_invariant:
  assumes "lib_lt_asym lib"
  shows "(float_lt lib tla (py_sum lib (map area_core cs)) \<longrightarrow>
            isl (FarmDetails_core lib tla soil irr cs water eq))
       \<and> (py_sum lib (map area_core cs) = tla
            \<and> float_lt lib (float_of_int lib 0) tla
            \<and> float_le lib tla (float_of_int lib 10000)
            \<and> (case water of Some w \<Rightarrow> length w \<le> 100 | None \<Rightarrow> True) \<longrightarrow>
            FarmDetails_core lib tla soil irr cs water eq =
              Inr \<lparr> total_land_area_core = tla, soil_type_core = soil,
                    irrigation_type_core = irr, crops_core = cs,
                    water_source_core = water, farm_equipment_core = eq \<rparr>)
       \<and> FarmDetails_dm lib m None None None ds =
            Inr \<lparr> total_land_area_dm = m, cultivable_area_dm = None,
                  irrigated_area_dm = None, soil_ph_dm = None, crops_dm = ds \<rparr>"
  using FarmDetails_core_over [OF assms] FarmDetails_core_exact [OF assms] FarmDetails_dm_unchecked
  by blast

lemma decimal_lib_asym: "lib_lt_asym decimal_lib"
  by (simp add: lib_lt_asym_def decimal_lib_def)

theorem crop_area_invariant_witness:
  "lib_lt_asym decimal_lib
   \<and> isl (FarmDetails_core decimal_lib 5 LOAMY CANAL
            [\<lparr> crop_type_core = ''wheat'', area_core = 3, planting_date_core = None,
               expected_harvest_core = None, variety_core = None \<rparr>,
             \<lparr> crop_type_core = ''gram'', area_core = 4, planting_date_core = None,
               expected_harvest_core = None, variety_core = None \<rparr>] None [])
   \<and> \<not> isl (FarmDetails_core decimal_lib 5 LOAMY CANAL
            [\<lparr> crop_type_core = ''wheat'', area_core = 3, planting_date_core = None,
               expected_harvest_core = None, variety_core = None \<rparr>,
             \<lparr> crop_type_core = ''gram'', area_core = 2, planting_date_core = None,
               expected_harvest_core = None, variety_core = None \<rparr>] None [])"
proof -
  let ?c1 = "[\<lparr> crop_type_core = ''wheat'', area_core = 3, planting_date_core = None,
               expected_harvest_core = None, variety_core = None \<rparr>,
             \<lparr> crop_type_core = ''gram'', area_core = 4::nat, planting_date_core = None,
               expected_harvest_core = None, variety_core = None \<rparr>]"
  let ?c2 = "[\<lparr> crop_type_core = ''wheat'', area_core = 3, planting_date_core = None,
               expected_harvest_core = None, variety_core = None \<rparr>,
             \<lparr> crop_type_core = ''gram'', area_core = 2::nat, planting_date_core = None,
               expected_harvest_core = None, variety_core = None \<rparr>]"
  have s1: "float_lt decimal_lib 5 (py_sum decimal_lib (map area_core ?c1))"
    by (simp add: py_sum_def decimal_lib_def)
  have s2: "py_sum decimal_lib (map area_core ?c2) = 5"
    by (simp add: py_sum_def decimal_lib_def)
  have r: "float_lt decimal_lib (float_of_int decimal_lib 0) 5"
          "float_le decimal_lib 5 (float_of_int decimal_lib 10000)"
    by (simp_all add: decimal_lib_def)
  from crop_area_invariant [OF decimal_lib_asym, of 5 ?c1 LOAMY CANAL None "[]"] s1
  have a: "isl (FarmDetails_core decimal_lib 5 LOAMY CANAL ?c1 None [])" by blast
  from crop_area_invariant [OF decimal_lib_asym, of 5 ?c2 LOAMY CANAL None "[]"] s2 r
  have b: "\<not> isl (FarmDetails_core decimal_lib 5 LOAMY CANAL ?c2 None [])" by simp
  from a b decimal_lib_asym show ?thesis by blast
qed

text \<open>
  C3 does not hold of \<open>FarmDetails\<close> of models/farmer.py: one crop of 5 acres on 1 acre of
  land is accepted.
\<close>

theorem crop_area_dm_counterexample:
  "float_lt decimal_lib 1
     (py_sum decimal_lib
        (map (\<lambda>c. value_dm (area_dm c))
           [\<lparr> crop_name_dm = ''wheat'',
              area_dm = \<lparr> value_dm = 5, unit_dm = ''acre'', precision_dm = None \<rparr> \<rparr>]))
   \<and> \<not> isl (FarmDetails_dm decimal_lib \<lparr> value_dm = 1, unit_dm = ''acre'', precision_dm = None \<rparr>
              None None None
              [\<lparr> crop_name_dm = ''wheat'',
                 area_dm = \<lparr> value_dm = 5, unit_dm = ''acre'', precision_dm = None \<rparr> \<rparr>])"
  by (simp add: FarmDetails_dm_unchecked py_sum_def decimal_lib_def)

section \<open>Encryption round trip\<close>
















end
